theory Spec2Isabelle
  imports Main "HOL-Library.Word"
begin

section \<open>The configuration header \<^verbatim>\<open>secrets_template.h\<close>\<close>

text \<open>
  The header consists of \<^verbatim>\<open>#pragma once\<close> and ten initialised
  declarations at namespace scope. Nine of them have the form
  \<^verbatim>\<open>const char* name = "literal";\<close> and one is
  \<^verbatim>\<open>const int mqtt_port = 1883;\<close>. There is no function and no
  statement. The model keeps each declaration as written: its name, its type
  with the place of every \<^verbatim>\<open>const\<close>, and its initialiser.
\<close>

subsection \<open>Types, initialisers and declarations\<close>

datatype cbase = CChar | CInt

text \<open>
  The flag of \<open>Base\<close> and of \<open>PointerTo\<close> says whether that level of the type
  is \<^verbatim>\<open>const\<close>-qualified. In \<^verbatim>\<open>const char*\<close> the qualifier
  belongs to \<^verbatim>\<open>char\<close>; nothing follows the \<^verbatim>\<open>*\<close>, so the pointer
  level is unqualified.
\<close>

datatype ctype = Base bool cbase | PointerTo bool ctype

text \<open>
  An initialiser is an expression. The header uses string literals and one
  integer literal; the conditional operator \<^verbatim>\<open>?:\<close> is the form by
  which an initialiser expression could branch.
\<close>

datatype cexpr =
    StringLiteral string
  | IntLiteral int
  | Conditional cexpr cexpr cexpr

record var_decl =
  decl_name :: string
  decl_type :: ctype
  decl_init :: cexpr

abbreviation const_char_ptr :: ctype where
  "const_char_ptr \<equiv> PointerTo False (Base True CChar)"

abbreviation const_int :: ctype where
  "const_int \<equiv> Base True CInt"

definition hostname :: var_decl where
  "hostname = \<lparr>decl_name = ''hostname'', decl_type = const_char_ptr,
     decl_init = StringLiteral ''espSolarChargerOTA''\<rparr>"

definition mqtt_user :: var_decl where
  "mqtt_user = \<lparr>decl_name = ''mqtt_user'', decl_type = const_char_ptr,
     decl_init = StringLiteral ''mqtt_user''\<rparr>"

definition mqtt_pass :: var_decl where
  "mqtt_pass = \<lparr>decl_name = ''mqtt_pass'', decl_type = const_char_ptr,
     decl_init = StringLiteral ''mqtt_password''\<rparr>"

definition mqtt_server :: var_decl where
  "mqtt_server = \<lparr>decl_name = ''mqtt_server'', decl_type = const_char_ptr,
     decl_init = StringLiteral ''192.168.1.15''\<rparr>"

definition mqtt_port :: var_decl where
  "mqtt_port = \<lparr>decl_name = ''mqtt_port'', decl_type = const_int,
     decl_init = IntLiteral 1883\<rparr>"

definition wifi_ssid :: var_decl where
  "wifi_ssid = \<lparr>decl_name = ''wifi_ssid'', decl_type = const_char_ptr,
     decl_init = StringLiteral ''wifi_network''\<rparr>"

definition wifi_pass :: var_decl where
  "wifi_pass = \<lparr>decl_name = ''wifi_pass'', decl_type = const_char_ptr,
     decl_init = StringLiteral ''wifi_passsword''\<rparr>"

definition mqtt_topic :: var_decl where
  "mqtt_topic = \<lparr>decl_name = ''mqtt_topic'', decl_type = const_char_ptr,
     decl_init = StringLiteral ''epever/state''\<rparr>"

definition ota_pass :: var_decl where
  "ota_pass = \<lparr>decl_name = ''ota_pass'', decl_type = const_char_ptr,
     decl_init = StringLiteral ''guessme''\<rparr>"

definition mqtt_deepsleep :: var_decl where
  "mqtt_deepsleep = \<lparr>decl_name = ''mqtt_deepsleep'', decl_type = const_char_ptr,
     decl_init = StringLiteral ''epever/deepsleep''\<rparr>"

text \<open>The header, in the order of its lines.\<close>

definition secrets_template :: "var_decl list" where
  "secrets_template =
     [hostname, mqtt_user, mqtt_pass, mqtt_server, mqtt_port,
      wifi_ssid, wifi_pass, mqtt_topic, ota_pass, mqtt_deepsleep]"

subsection \<open>Values and the store of global objects\<close>

text \<open>
  A \<^verbatim>\<open>char\<close> pointer is null (\<open>None\<close>) or points to a NUL-terminated
  character array, given by its contents without the terminator. An
  \<^verbatim>\<open>int\<close> has 32 bits on the ESP targets of the firmware.
\<close>

datatype cvalue = CharPtr "string option" | IntVal "32 word"

record object =
  obj_type :: ctype
  obj_value :: cvalue

type_synonym store = "(string \<times> object) list"

datatype init_error = TypeMismatch string | Redefinition string

fun truthy :: "cvalue \<Rightarrow> bool" where
  "truthy (CharPtr p) = (p \<noteq> None)"
| "truthy (IntVal w) = (w \<noteq> 0)"

fun eval_init :: "cexpr \<Rightarrow> cvalue" where
  "eval_init (StringLiteral s) = CharPtr (Some s)"
| "eval_init (IntLiteral i) = IntVal (word_of_int i)"
| "eval_init (Conditional c t e) =
     (if truthy (eval_init c) then eval_init t else eval_init e)"

text \<open>
  Which values an object of a type may hold. The address of a string literal
  converts to a pointer to \<^verbatim>\<open>const char\<close> only.
\<close>

fun has_type :: "ctype \<Rightarrow> cvalue \<Rightarrow> bool" where
  "has_type (PointerTo _ (Base True CChar)) (CharPtr _) = True"
| "has_type (PointerTo _ (Base False CChar)) (CharPtr p) = (p = None)"
| "has_type (Base _ CInt) (IntVal _) = True"
| "has_type _ _ = False"

text \<open>
  The value a declaration gives its object, or the error with which the
  declaration is rejected. The literal \<^verbatim>\<open>0\<close> is the null pointer
  constant.
\<close>

fun init_value :: "string \<Rightarrow> ctype \<Rightarrow> cexpr \<Rightarrow> init_error + cvalue" where
  "init_value n (PointerTo q (Base b CChar)) (IntLiteral i) =
     (if i = 0 then Inr (CharPtr None) else Inl (TypeMismatch n))"
| "init_value n ty e =
     (if has_type ty (eval_init e) then Inr (eval_init e) else Inl (TypeMismatch n))"

text \<open>
  Static initialisation runs the declarations in order; a name that is
  already defined is an error.
\<close>

fun static_init_from :: "store \<Rightarrow> var_decl list \<Rightarrow> init_error + store" where
  "static_init_from \<sigma> [] = Inr \<sigma>"
| "static_init_from \<sigma> (d # ds) =
     (case map_of \<sigma> (decl_name d) of
        Some _ \<Rightarrow> Inl (Redefinition (decl_name d))
      | None \<Rightarrow>
          (case init_value (decl_name d) (decl_type d) (decl_init d) of
             Inl err \<Rightarrow> Inl err
           | Inr v \<Rightarrow>
               static_init_from
                 (\<sigma> @ [(decl_name d, \<lparr>obj_type = decl_type d, obj_value = v\<rparr>)]) ds))"

definition static_init :: "var_decl list \<Rightarrow> init_error + store" where
  "static_init ds = static_init_from [] ds"

text \<open>The store a firmware image built with the header starts with.\<close>

definition initial_store :: store where
  "initial_store = (case static_init secrets_template of Inr \<sigma> \<Rightarrow> \<sigma> | Inl _ \<Rightarrow> [])"

subsection \<open>Reading a global\<close>

text \<open>
  Reading a global yields its value, if the name is defined, and leaves the
  store as it is.
\<close>

definition read_global :: "string \<Rightarrow> store \<Rightarrow> cvalue option \<times> store" where
  "read_global n \<sigma> = (map_option obj_value (map_of \<sigma> n), \<sigma>)"

text \<open>
  The string a read yields: defined only for a non-null character pointer.
\<close>

fun c_str :: "cvalue option \<Rightarrow> string option" where
  "c_str (Some (CharPtr (Some s))) = Some s"
| "c_str _ = None"

fun c_int :: "cvalue option \<Rightarrow> 32 word option" where
  "c_int (Some (IntVal w)) = Some w"
| "c_int _ = None"

definition config_string :: "var_decl \<Rightarrow> string option" where
  "config_string d = c_str (fst (read_global (decl_name d) initial_store))"

definition config_int :: "var_decl \<Rightarrow> 32 word option" where
  "config_int d = c_int (fst (read_global (decl_name d) initial_store))"

subsection \<open>Assigning to a global\<close>

text \<open>
  An assignment needs a modifiable left operand: an object whose type is
  \<^verbatim>\<open>const\<close> at the top level is read-only. For a pointer the top
  level is the pointer itself, not what it points to.
\<close>

fun top_const :: "ctype \<Rightarrow> bool" where
  "top_const (Base q _) = q"
| "top_const (PointerTo q _) = q"

fun pointee_const :: "ctype \<Rightarrow> bool" where
  "pointee_const (PointerTo _ t) = top_const t"
| "pointee_const (Base _ _) = False"

datatype access_error = Undeclared string | ReadOnly string | BadValue string

fun store_update :: "string \<Rightarrow> object \<Rightarrow> store \<Rightarrow> store" where
  "store_update n obj [] = []"
| "store_update n obj (b # \<sigma>) =
     (if fst b = n then (n, obj) # \<sigma> else b # store_update n obj \<sigma>)"

definition assign :: "string \<Rightarrow> cvalue \<Rightarrow> store \<Rightarrow> access_error + store" where
  "assign n v \<sigma> =
     (case map_of \<sigma> n of
        None \<Rightarrow> Inl (Undeclared n)
      | Some obj \<Rightarrow>
          if top_const (obj_type obj) then Inl (ReadOnly n)
          else if has_type (obj_type obj) v
          then Inr (store_update n (obj\<lparr>obj_value := v\<rparr>) \<sigma>)
          else Inl (BadValue n))"

text \<open>
  Assigning \<open>v\<close> to the global of a declaration in the initial store and
  reading the global back.
\<close>

definition reassign :: "var_decl \<Rightarrow> cvalue \<Rightarrow> access_error + cvalue option" where
  "reassign d v =
     (case assign (decl_name d) v initial_store of
        Inl err \<Rightarrow> Inl err
      | Inr \<sigma> \<Rightarrow> Inr (fst (read_global (decl_name d) \<sigma>)))"

subsection \<open>Runs of operations on the globals\<close>






subsection \<open>Shape of an initialiser\<close>

fun branch_free :: "cexpr \<Rightarrow> bool" where
  "branch_free (StringLiteral _) = True"
| "branch_free (IntLiteral _) = True"
| "branch_free (Conditional _ _ _) = False"

subsection \<open>Predicates on strings\<close>

text \<open>Character classes of the C locale, on the character's code.\<close>

definition is_digit :: "char \<Rightarrow> bool" where
  "is_digit c = (48 \<le> (of_char c :: nat) \<and> (of_char c :: nat) \<le> 57)"

definition is_print :: "char \<Rightarrow> bool" where
  "is_print c = (32 \<le> (of_char c :: nat) \<and> (of_char c :: nat) \<le> 126)"

definition is_space :: "char \<Rightarrow> bool" where
  "is_space c = ((of_char c :: nat) = 32 \<or> (9 \<le> (of_char c :: nat) \<and> (of_char c :: nat) \<le> 13))"

definition is_cntrl :: "char \<Rightarrow> bool" where
  "is_cntrl c = ((of_char c :: nat) < 32 \<or> (of_char c :: nat) = 127)"

definition visible_ascii :: "string \<Rightarrow> bool" where
  "visible_ascii s = list_all (\<lambda>c. is_print c \<and> \<not> is_space c \<and> \<not> is_cntrl c) s"

text \<open>
  The fields of a string between occurrences of a separator; a string
  without the separator is one field.
\<close>

fun split_on :: "char \<Rightarrow> string \<Rightarrow> string list" where
  "split_on sep [] = [[]]"
| "split_on sep (c # cs) =
     (if c = sep then [] # split_on sep cs
      else (case split_on sep cs of
              [] \<Rightarrow> [[c]]
            | w # ws \<Rightarrow> (c # w) # ws))"

definition is_decimal :: "string \<Rightarrow> bool" where
  "is_decimal s = (s \<noteq> [] \<and> list_all is_digit s)"

definition dec_value :: "string \<Rightarrow> nat" where
  "dec_value s = foldl (\<lambda>a c. 10 * a + ((of_char c :: nat) - 48)) 0 s"

text \<open>
  An IPv4 literal: exactly four fields between dots, each a decimal numeral
  of value at most 255.
\<close>

definition ipv4_literal :: "string \<Rightarrow> bool" where
  "ipv4_literal s =
     (length (split_on (CHR ''.'') s) = 4 \<and>
      list_all (\<lambda>w. is_decimal w \<and> dec_value w \<le> 255) (split_on (CHR ''.'') s))"

fun starts_with :: "string \<Rightarrow> string \<Rightarrow> bool" where
  "starts_with [] s = True"
| "starts_with (p # ps) [] = False"
| "starts_with (p # ps) (c # cs) = (p = c \<and> starts_with ps cs)"

text \<open>The MQTT wildcards are \<^verbatim>\<open>#\<close> and \<^verbatim>\<open>+\<close>.\<close>

definition has_wildcard :: "string \<Rightarrow> bool" where
  "has_wildcard s = (CHR ''#'' \<in> set s \<or> CHR ''+'' \<in> set s)"

subsection \<open>The string fields\<close>

fun is_char_ptr :: "ctype \<Rightarrow> bool" where
  "is_char_ptr (PointerTo _ (Base _ CChar)) = True"
| "is_char_ptr _ = False"

text \<open>The declarations of the header whose type is a character pointer.\<close>

definition string_fields :: "var_decl list" where
  "string_fields = filter (\<lambda>d. is_char_ptr (decl_type d)) secrets_template"

text \<open>
  The global of a declaration holds, after static initialisation, a non-null
  character pointer whose string satisfies \<open>P\<close>.
\<close>

definition string_constant_satisfies :: "(string \<Rightarrow> bool) \<Rightarrow> var_decl \<Rightarrow> bool" where
  "string_constant_satisfies P d = (case config_string d of Some s \<Rightarrow> P s | None \<Rightarrow> False)"

section \<open>Static initialisation of the header\<close>

lemmas decl_defs =
  hostname_def mqtt_user_def mqtt_pass_def mqtt_server_def mqtt_port_def
  wifi_ssid_def wifi_pass_def mqtt_topic_def ota_pass_def mqtt_deepsleep_def

lemma static_init_secrets_template:
  "static_init secrets_template = Inr
     [(''hostname'', \<lparr>obj_type = const_char_ptr, obj_value = CharPtr (Some ''espSolarChargerOTA'')\<rparr>),
      (''mqtt_user'', \<lparr>obj_type = const_char_ptr, obj_value = CharPtr (Some ''mqtt_user'')\<rparr>),
      (''mqtt_pass'', \<lparr>obj_type = const_char_ptr, obj_value = CharPtr (Some ''mqtt_password'')\<rparr>),
      (''mqtt_server'', \<lparr>obj_type = const_char_ptr, obj_value = CharPtr (Some ''192.168.1.15'')\<rparr>),
      (''mqtt_port'', \<lparr>obj_type = const_int, obj_value = IntVal 1883\<rparr>),
      (''wifi_ssid'', \<lparr>obj_type = const_char_ptr, obj_value = CharPtr (Some ''wifi_network'')\<rparr>),
      (''wifi_pass'', \<lparr>obj_type = const_char_ptr, obj_value = CharPtr (Some ''wifi_passsword'')\<rparr>),
      (''mqtt_topic'', \<lparr>obj_type = const_char_ptr, obj_value = CharPtr (Some ''epever/state'')\<rparr>),
      (''ota_pass'', \<lparr>obj_type = const_char_ptr, obj_value = CharPtr (Some ''guessme'')\<rparr>),
      (''mqtt_deepsleep'', \<lparr>obj_type = const_char_ptr, obj_value = CharPtr (Some ''epever/deepsleep'')\<rparr>)]"
  by (simp add: static_init_def secrets_template_def decl_defs)

lemma initial_store_eq:
  "initial_store =
     [(''hostname'', \<lparr>obj_type = const_char_ptr, obj_value = CharPtr (Some ''espSolarChargerOTA'')\<rparr>),
      (''mqtt_user'', \<lparr>obj_type = const_char_ptr, obj_value = CharPtr (Some ''mqtt_user'')\<rparr>),
      (''mqtt_pass'', \<lparr>obj_type = const_char_ptr, obj_value = CharPtr (Some ''mqtt_password'')\<rparr>),
      (''mqtt_server'', \<lparr>obj_type = const_char_ptr, obj_value = CharPtr (Some ''192.168.1.15'')\<rparr>),
      (''mqtt_port'', \<lparr>obj_type = const_int, obj_value = IntVal 1883\<rparr>),
      (''wifi_ssid'', \<lparr>obj_type = const_char_ptr, obj_value = CharPtr (Some ''wifi_network'')\<rparr>),
      (''wifi_pass'', \<lparr>obj_type = const_char_ptr, obj_value = CharPtr (Some ''wifi_passsword'')\<rparr>),
      (''mqtt_topic'', \<lparr>obj_type = const_char_ptr, obj_value = CharPtr (Some ''epever/state'')\<rparr>),
      (''ota_pass'', \<lparr>obj_type = const_char_ptr, obj_value = CharPtr (Some ''guessme'')\<rparr>),
      (''mqtt_deepsleep'', \<lparr>obj_type = const_char_ptr, obj_value = CharPtr (Some ''epever/deepsleep'')\<rparr>)]"
  by (simp add: initial_store_def static_init_secrets_template)

lemma config_string_values:
  "config_string hostname = Some ''espSolarChargerOTA''"
  "config_string mqtt_user = Some ''mqtt_user''"
  "config_string mqtt_pass = Some ''mqtt_password''"
  "config_string mqtt_server = Some ''192.168.1.15''"
  "config_string wifi_ssid = Some ''wifi_network''"
  "config_string wifi_pass = Some ''wifi_passsword''"
  "config_string mqtt_topic = Some ''epever/state''"
  "config_string ota_pass = Some ''guessme''"
  "config_string mqtt_deepsleep = Some ''epever/deepsleep''"
  by (simp_all add: config_string_def read_global_def initial_store_eq decl_defs)

lemma config_int_mqtt_port: "config_int mqtt_port = Some 1883"
  by (simp add: config_int_def read_global_def initial_store_eq mqtt_port_def)

lemma string_fields_eq:
  "string_fields =
     [hostname, mqtt_user, mqtt_pass, mqtt_server,
      wifi_ssid, wifi_pass, mqtt_topic, ota_pass, mqtt_deepsleep]"
  by (simp add: string_fields_def secrets_template_def decl_defs)

section \<open>Runs and the store\<close>








section \<open>The literal values\<close>

text \<open>
  Claim C1. With the template unmodified, every string constant read after
  static initialisation is exactly the literal of the header: hostname is
  "espSolarChargerOTA", mqtt_user is "mqtt_user", mqtt_pass is
  "mqtt_password", mqtt_server is "192.168.1.15", wifi_ssid is
  "wifi_network", wifi_pass is "wifi_passsword", mqtt_topic is
  "epever/state", ota_pass is "guessme" and mqtt_deepsleep is
  "epever/deepsleep".
\<close>

theorem string_constants_are_template_literals:
  "config_string hostname = Some ''espSolarChargerOTA'' \<and>
   config_string mqtt_user = Some ''mqtt_user'' \<and>
   config_string mqtt_pass = Some ''mqtt_password'' \<and>
   config_string mqtt_server = Some ''192.168.1.15'' \<and>
   config_string wifi_ssid = Some ''wifi_network'' \<and>
   config_string wifi_pass = Some ''wifi_passsword'' \<and>
   config_string mqtt_topic = Some ''epever/state'' \<and>
   config_string ota_pass = Some ''guessme'' \<and>
   config_string mqtt_deepsleep = Some ''epever/deepsleep''"
  by (simp only: config_string_values simp_thms)

text \<open>
  Claim C8. mqtt_port is exactly 1883: the global holds the 32-bit value
  1883, which read as a signed integer is 1883.
\<close>

theorem mqtt_port_is_1883:
  "config_int mqtt_port = Some 1883 \<and> map_option sint (config_int mqtt_port) = Some 1883"
  by (simp add: config_int_mqtt_port)

text \<open>
  Claim C4. mqtt_port is an integer in the inclusive range from 0 to 65535,
  a valid TCP port number.
\<close>

theorem mqtt_port_is_tcp_port:
  "\<exists>w. config_int mqtt_port = Some w \<and> 0 \<le> sint w \<and> sint w \<le> 65535"
  by (simp add: config_int_mqtt_port)

section \<open>Presence and shape of the values\<close>

text \<open>
  Claim C3. Each of the ten declared names is bound to a value after static
  initialisation, and the value has the declared type. Each of the nine
  string fields holds a non-null pointer to a non-empty string, and
  mqtt_port holds an integer.
\<close>

theorem all_values_present_and_nonempty:
  "list_all (\<lambda>d. fst (read_global (decl_name d) initial_store) \<noteq> None) secrets_template \<and>
   list_all (\<lambda>b. has_type (obj_type (snd b)) (obj_value (snd b))) initial_store \<and>
   list_all (string_constant_satisfies (\<lambda>s. s \<noteq> [])) string_fields \<and>
   string_fields =
     [hostname, mqtt_user, mqtt_pass, mqtt_server,
      wifi_ssid, wifi_pass, mqtt_topic, ota_pass, mqtt_deepsleep] \<and>
   config_int mqtt_port \<noteq> None"
proof -
  have bound: "list_all (\<lambda>d. fst (read_global (decl_name d) initial_store) \<noteq> None) secrets_template"
    by (simp add: read_global_def initial_store_eq secrets_template_def decl_defs)
  have typed: "list_all (\<lambda>b. has_type (obj_type (snd b)) (obj_value (snd b))) initial_store"
    by (simp add: initial_store_eq)
  have strings: "list_all (string_constant_satisfies (\<lambda>s. s \<noteq> [])) string_fields"
    by (simp add: string_fields_eq string_constant_satisfies_def config_string_values)
  have nine: "string_fields =
     [hostname, mqtt_user, mqtt_pass, mqtt_server,
      wifi_ssid, wifi_pass, mqtt_topic, ota_pass, mqtt_deepsleep]"
    by (rule string_fields_eq)
  have port: "config_int mqtt_port \<noteq> None"
    by (simp add: config_int_mqtt_port)
  from bound typed strings nine port show ?thesis
    by (intro conjI)
qed

text \<open>
  Claim C6. mqtt_server is an IPv4 literal: it has exactly four fields
  between dots, each a decimal numeral of value at most 255. The four values
  are 192, 168, 1 and 15.
\<close>

theorem mqtt_server_is_ipv4_literal:
  "\<exists>s. config_string mqtt_server = Some s \<and> ipv4_literal s \<and>
       map dec_value (split_on (CHR ''.'') s) = [192, 168, 1, 15]"
  by (simp add: config_string_values ipv4_literal_def is_decimal_def dec_value_def is_digit_def)

text \<open>
  Claim C9. The topics mqtt_topic and mqtt_deepsleep differ, both begin with
  "epever/", and neither contains the MQTT wildcard characters # or +.
\<close>

theorem mqtt_topics_distinct_prefixed_no_wildcard:
  "config_string mqtt_topic \<noteq> config_string mqtt_deepsleep \<and>
   string_constant_satisfies (starts_with ''epever/'') mqtt_topic \<and>
   string_constant_satisfies (starts_with ''epever/'') mqtt_deepsleep \<and>
   string_constant_satisfies (\<lambda>s. \<not> has_wildcard s) mqtt_topic \<and>
   string_constant_satisfies (\<lambda>s. \<not> has_wildcard s) mqtt_deepsleep"
  by (simp add: string_constant_satisfies_def config_string_values has_wildcard_def)

text \<open>
  Claim C10. Each of the nine string constants consists of printable ASCII
  characters only, none of them a whitespace or a control character.
\<close>

theorem string_constants_visible_ascii:
  "list_all (string_constant_satisfies visible_ascii) string_fields \<and>
   string_fields =
     [hostname, mqtt_user, mqtt_pass, mqtt_server,
      wifi_ssid, wifi_pass, mqtt_topic, ota_pass, mqtt_deepsleep]"
proof -
  have "list_all (string_constant_satisfies visible_ascii) string_fields"
    by (simp add: string_fields_eq string_constant_satisfies_def config_string_values
        visible_ascii_def is_print_def is_space_def is_cntrl_def)
  with string_fields_eq show ?thesis
    by (intro conjI)
qed

section \<open>The names and the constness of the bindings\<close>

text \<open>
  Claim C2 says that the unit exposes exactly the ten names and that none of
  the ten bindings can be reassigned after initialisation. The second part
  fails for the pointers: \<^verbatim>\<open>const char* hostname\<close> is a pointer to
  constant characters, not a constant pointer, so an assignment of another
  string to hostname is accepted and a later read yields the new string.
\<close>

theorem hostname_binding_reassignable:
  "reassign hostname (CharPtr (Some ''otherHost'')) = Inr (Some (CharPtr (Some ''otherHost''))) \<and>
   fst (read_global (decl_name hostname) initial_store) = Some (CharPtr (Some ''espSolarChargerOTA''))"
  by (simp add: reassign_def assign_def initial_store_eq hostname_def read_global_def)

text \<open>
  Claim C2, amended. The unit exposes exactly the ten names hostname,
  mqtt_user, mqtt_pass, mqtt_server, mqtt_port, wifi_ssid, wifi_pass,
  mqtt_topic, ota_pass and mqtt_deepsleep, each once. mqtt_port is a constant
  integer binding: every assignment to it is rejected as read-only. Each of
  the nine string bindings is a pointer to constant characters whose pointer
  level is not constant: assigning any character pointer \<open>p\<close> to it is
  accepted, and the binding then holds \<open>p\<close>.
\<close>

theorem ten_bindings_and_their_constness:
  "map decl_name secrets_template =
     [''hostname'', ''mqtt_user'', ''mqtt_pass'', ''mqtt_server'', ''mqtt_port'',
      ''wifi_ssid'', ''wifi_pass'', ''mqtt_topic'', ''ota_pass'', ''mqtt_deepsleep''] \<and>
   distinct (map decl_name secrets_template) \<and>
   map fst initial_store = map decl_name secrets_template \<and>
   decl_type mqtt_port = Base True CInt \<and>
   reassign mqtt_port v = Inl (ReadOnly ''mqtt_port'') \<and>
   list_all (\<lambda>d. decl_type d = PointerTo False (Base True CChar) \<and>
                 pointee_const (decl_type d) \<and>
                 reassign d (CharPtr p) = Inr (Some (CharPtr p))) string_fields \<and>
   string_fields =
     [hostname, mqtt_user, mqtt_pass, mqtt_server,
      wifi_ssid, wifi_pass, mqtt_topic, ota_pass, mqtt_deepsleep]"
proof -
  have names: "map decl_name secrets_template =
     [''hostname'', ''mqtt_user'', ''mqtt_pass'', ''mqtt_server'', ''mqtt_port'',
      ''wifi_ssid'', ''wifi_pass'', ''mqtt_topic'', ''ota_pass'', ''mqtt_deepsleep'']"
    by (simp add: secrets_template_def decl_defs)
  have once: "distinct (map decl_name secrets_template)"
    by (simp add: names)
  have bound: "map fst initial_store = map decl_name secrets_template"
    by (simp add: names initial_store_eq)
  have port_type: "decl_type mqtt_port = Base True CInt"
    by (simp add: mqtt_port_def)
  have port: "reassign mqtt_port v = Inl (ReadOnly ''mqtt_port'')"
    by (simp add: reassign_def assign_def initial_store_eq mqtt_port_def)
  have pointers:
    "list_all (\<lambda>d. decl_type d = PointerTo False (Base True CChar) \<and>
                   pointee_const (decl_type d) \<and>
                   reassign d (CharPtr p) = Inr (Some (CharPtr p))) string_fields"
    by (simp add: string_fields_eq decl_defs initial_store_eq
        reassign_def assign_def read_global_def)
  from names once bound port_type port pointers string_fields_eq show ?thesis
    by (intro conjI)
qed

section \<open>Runs after static initialisation\<close>




text \<open>
  Claim C7. The unit is the list of ten initialised declarations and nothing
  else. Static initialisation of the list succeeds: it returns a store, not
  an error, and the store binds ten names. No initialiser branches: each is
  a literal.
\<close>

theorem static_init_total_and_branch_free:
  "static_init secrets_template = Inr initial_store \<and>
   length secrets_template = 10 \<and>
   length initial_store = 10 \<and>
   list_all (\<lambda>d. branch_free (decl_init d)) secrets_template"
proof -
  have no_error: "static_init secrets_template = Inr initial_store"
    by (simp add: static_init_secrets_template initial_store_eq)
  have ten: "length secrets_template = 10"
    by (simp add: secrets_template_def)
  have bindings: "length initial_store = 10"
    by (simp add: initial_store_eq)
  have literals: "list_all (\<lambda>d. branch_free (decl_init d)) secrets_template"
    by (simp add: secrets_template_def decl_defs)
  from no_error ten bindings literals show ?thesis
    by (intro conjI)
qed

end
